theory Spec2Isabelle
  imports Main
begin

section \<open>Python values and exceptions\<close>

text \<open>
  The claims of a decoded token are the result of \<^verbatim>\<open>json.loads\<close>: a dict from claim
  names to JSON values. A Python \<^verbatim>\<open>str\<close> is modelled as a \<open>string\<close> whose characters
  are the code points 0..255; code points above 255 are outside the model.
  A float is kept only as far as its truth value needs: a finite float is
  \<open>m * 2 ^ e\<close>, and it is falsy exactly when \<open>m = 0\<close>.
\<close>

datatype pyfloat = Finite int int | Infinity bool | NaN

datatype pyval =
    PNone
  | PBool bool
  | PInt int
  | PFloat pyfloat
  | PStr string
  | PList "pyval list"
  | PDict "(string \<times> pyval) list"

type_synonym claims = "string \<rightharpoonup> pyval"

text \<open>Python's truth value testing (\<^verbatim>\<open>bool(x)\<close>), as used by \<^verbatim>\<open>or\<close> and \<^verbatim>\<open>not\<close>.\<close>

fun truthy :: "pyval \<Rightarrow> bool" where
  "truthy PNone = False"
| "truthy (PBool b) = b"
| "truthy (PInt n) = (n \<noteq> 0)"
| "truthy (PFloat (Finite m e)) = (m \<noteq> 0)"
| "truthy (PFloat (Infinity s)) = True"
| "truthy (PFloat NaN) = True"
| "truthy (PStr s) = (s \<noteq> [])"
| "truthy (PList xs) = (xs \<noteq> [])"
| "truthy (PDict kvs) = (kvs \<noteq> [])"

text \<open>\<^verbatim>\<open>a or b\<close>: the first operand when it is truthy, the second otherwise.\<close>

definition py_or :: "pyval \<Rightarrow> pyval \<Rightarrow> pyval" where
  "py_or a b = (if truthy a then a else b)"

text \<open>\<^verbatim>\<open>d.get(k)\<close>: the value stored under the key, \<^verbatim>\<open>None\<close> when the key is absent.\<close>

definition dict_get :: "claims \<Rightarrow> string \<Rightarrow> pyval" where
  "dict_get d k = (case d k of None \<Rightarrow> PNone | Some v \<Rightarrow> v)"

text \<open>\<^verbatim>\<open>type(x).__name__\<close>, which Python puts into the message of an AttributeError.\<close>

fun type_name :: "pyval \<Rightarrow> string" where
  "type_name PNone = ''NoneType''"
| "type_name (PBool b) = ''bool''"
| "type_name (PInt n) = ''int''"
| "type_name (PFloat f) = ''float''"
| "type_name (PStr s) = ''str''"
| "type_name (PList xs) = ''list''"
| "type_name (PDict kvs) = ''dict''"

text \<open>
  The exceptions that reach the handlers of the middleware. Each carries the text that
  \<^verbatim>\<open>str(e)\<close> gives, except \<open>HTTPException\<close>, which carries its status code and detail.
  \<open>ExpiredSignatureError\<close> is PyJWT's subclass of \<open>InvalidTokenError\<close>; the constructor
  \<open>InvalidTokenError\<close> stands for \<^verbatim>\<open>jwt.InvalidTokenError\<close> and every other subclass of it
  (DecodeError, InvalidSignatureError, InvalidAlgorithmError, InvalidAudienceError, ...).
  \<open>OtherException\<close> is any other subclass of \<^verbatim>\<open>Exception\<close>. FastAPI's \<open>HTTPException\<close>
  is itself a subclass of \<^verbatim>\<open>Exception\<close>.
\<close>

datatype exc =
    ExpiredSignatureError string
  | InvalidTokenError string
  | HTTPException nat string
  | ValueError string
  | TypeError string
  | AttributeError string
  | OtherException string

text \<open>
  \<^verbatim>\<open>str(e)\<close>. What Starlette prints for an \<open>HTTPException\<close> depends on its version (the
  empty string before \<^verbatim>\<open>__str__\<close> was added, \<^verbatim>\<open>"<status>: <detail>"\<close> after), so
  that rendering is the parameter \<open>http_str\<close>.
\<close>

fun exc_str :: "(nat \<Rightarrow> string \<Rightarrow> string) \<Rightarrow> exc \<Rightarrow> string" where
  "exc_str http_str (ExpiredSignatureError m) = m"
| "exc_str http_str (InvalidTokenError m) = m"
| "exc_str http_str (HTTPException status detail) = http_str status detail"
| "exc_str http_str (ValueError m) = m"
| "exc_str http_str (TypeError m) = m"
| "exc_str http_str (AttributeError m) = m"
| "exc_str http_str (OtherException m) = m"

section \<open>The UUID constructor of the standard library\<close>

text \<open>
  \<^verbatim>\<open>uuid.UUID(hex)\<close> of CPython's \<^verbatim>\<open>Lib/uuid.py\<close>, for the one argument the middleware
  passes:
  \<^verbatim>\<open>
    if [hex, bytes, bytes_le, fields, int].count(None) != 4:
        raise TypeError('one of the hex, bytes, bytes_le, fields, or int arguments must be given')
    if hex is not None:
        hex = hex.replace('urn:', '').replace('uuid:', '')
        hex = hex.strip('{}').replace('-', '')
        if len(hex) != 32:
            raise ValueError('badly formed hexadecimal UUID string')
        int = int_(hex, 16)
    if int is not None:
        if not 0 <= int < 1<<128:
            raise ValueError('int is out of range (need a 128-bit value)')
  \<close>
\<close>

text \<open>\<^verbatim>\<open>s.replace(old, '')\<close> for a non-empty \<open>old\<close>: occurrences are removed left to right.\<close>

function str_remove :: "string \<Rightarrow> string \<Rightarrow> string" where
  "str_remove old [] = []"
| "str_remove old (c # cs) =
     (if old \<noteq> [] \<and> take (length old) (c # cs) = old
      then str_remove old (drop (length old) (c # cs))
      else c # str_remove old cs)"
  by pat_completeness auto
termination
  by (relation "measure (\<lambda>(old, s). length s)") auto

text \<open>\<^verbatim>\<open>s.strip(chars)\<close>: leading and trailing characters of the set are dropped.\<close>

definition str_strip :: "char set \<Rightarrow> string \<Rightarrow> string" where
  "str_strip chars s = rev (dropWhile (\<lambda>c. c \<in> chars) (rev (dropWhile (\<lambda>c. c \<in> chars) s)))"

text \<open>
  \<^verbatim>\<open>int(s, 16)\<close> on a str, after CPython's \<^verbatim>\<open>PyLong_FromUnicodeObject\<close> and
  \<^verbatim>\<open>PyLong_FromString\<close>. A string with a character above 127 is first rewritten: a
  character below 127 stays, Unicode white space (U+0085 and U+00A0 in this range)
  becomes a blank, anything else becomes \<^verbatim>\<open>?\<close>. Then: leading ASCII white space, an
  optional sign, an optional \<^verbatim>\<open>0x\<close> followed by at most one underscore, digits with
  single underscores between them, trailing white space, and nothing else. The
  message of the ValueError is cut before the quoted literal that Python appends.
\<close>

definition to_ascii :: "char \<Rightarrow> char" where
  "to_ascii c =
     (if (of_char c :: nat) < 127 then c
      else if c = CHR 0x85 \<or> c = CHR 0xA0 then CHR '' ''
      else CHR ''?'')"

definition transform_decimal_and_space :: "string \<Rightarrow> string" where
  "transform_decimal_and_space s =
     (if list_all (\<lambda>c. (of_char c :: nat) < 128) s then s else map to_ascii s)"

definition is_space :: "char \<Rightarrow> bool" where
  "is_space c = ((9 \<le> (of_char c :: nat) \<and> (of_char c :: nat) \<le> 13) \<or> c = CHR '' '')"

definition digit_value :: "char \<Rightarrow> nat" where
  "digit_value c =
     (let n = (of_char c :: nat) in
      if 48 \<le> n \<and> n \<le> 57 then n - 48
      else if 97 \<le> n \<and> n \<le> 122 then n - 87
      else if 65 \<le> n \<and> n \<le> 90 then n - 55
      else 37)"

text \<open>
  The digit loop: \<open>prev\<close> tells whether the previous character was an underscore,
  \<open>acc\<close> is the value so far. The result is the value and the unread rest, or
  \<open>None\<close> for a doubled or trailing underscore.
\<close>

fun scan_digits :: "nat \<Rightarrow> bool \<Rightarrow> int \<Rightarrow> string \<Rightarrow> (int \<times> string) option" where
  "scan_digits base prev acc [] = (if prev then None else Some (acc, []))"
| "scan_digits base prev acc (c # cs) =
     (if c = CHR ''_'' then (if prev then None else scan_digits base True acc cs)
      else if digit_value c < base then scan_digits base False (acc * int base + int (digit_value c)) cs
      else if prev then None else Some (acc, c # cs))"

definition strip_sign :: "string \<Rightarrow> bool \<times> string" where
  "strip_sign s =
     (case s of
        c # cs \<Rightarrow> if c = CHR ''+'' then (False, cs) else if c = CHR ''-'' then (True, cs) else (False, s)
      | [] \<Rightarrow> (False, s))"

definition strip_hex_prefix :: "string \<Rightarrow> string" where
  "strip_hex_prefix s =
     (case s of
        a # b # cs \<Rightarrow>
          if a = CHR ''0'' \<and> (b = CHR ''x'' \<or> b = CHR ''X'')
          then (case cs of c # ds \<Rightarrow> if c = CHR ''_'' then ds else cs | [] \<Rightarrow> cs)
          else s
      | _ \<Rightarrow> s)"

definition int_16 :: "string \<Rightarrow> exc + int" where
  "int_16 s =
     (let invalid = Inl (ValueError ''invalid literal for int() with base 16'');
          s1 = dropWhile is_space (transform_decimal_and_space s);
          (neg, s2) = strip_sign s1;
          s3 = strip_hex_prefix s2
      in case s3 of
           [] \<Rightarrow> invalid
         | c # cs \<Rightarrow>
             if c = CHR ''_'' \<or> \<not> digit_value c < 16 then invalid
             else (case scan_digits 16 False 0 s3 of
                     None \<Rightarrow> invalid
                   | Some (n, rest) \<Rightarrow>
                       if dropWhile is_space rest = []
                       then Inr (if neg then - n else n)
                       else invalid))"

fun UUID :: "pyval \<Rightarrow> exc + int" where
  "UUID PNone =
     Inl (TypeError ''one of the hex, bytes, bytes_le, fields, or int arguments must be given'')"
| "UUID (PStr hex) =
     (let hex1 = str_remove ''uuid:'' (str_remove ''urn:'' hex);
          hex2 = filter (\<lambda>c. c \<noteq> CHR ''-'') (str_strip {CHR ''{'', CHR ''}''} hex1)
      in if length hex2 \<noteq> 32
         then Inl (ValueError ''badly formed hexadecimal UUID string'')
         else (case int_16 hex2 of
                 Inl e \<Rightarrow> Inl e
               | Inr i \<Rightarrow>
                   if \<not> (0 \<le> i \<and> i < 2 ^ 128)
                   then Inl (ValueError ''int is out of range (need a 128-bit value)'')
                   else Inr i))"
| "UUID v =
     Inl (AttributeError
       ([CHR 0x27] @ type_name v @ [CHR 0x27] @ '' object has no attribute '' @
        [CHR 0x27] @ ''replace'' @ [CHR 0x27]))"

section \<open>The external libraries\<close>

text \<open>
  PyJWT, the Supabase client and the process environment are not part of the
  repository; the middleware receives them as parameters.
  \<^item> \<open>jwt_decode token key algorithms audience\<close> is
    \<^verbatim>\<open>jwt.decode(token, key, algorithms=..., audience=...)\<close>: the claims of a token that
    verifies, or the exception raised.
  \<^item> A \<open>Client\<close> is the store seen through the one thing the middleware does with it:
    it executes a query and answers with a response or raises.
  \<^item> \<open>create_client url key\<close> is \<^verbatim>\<open>supabase.create_client\<close>, which returns a client or
    raises.
  \<^item> The environment is a map from variable names to their values.
\<close>

type_synonym jwt_decode = "string \<Rightarrow> string \<Rightarrow> string list \<Rightarrow> string \<Rightarrow> exc + claims"

record Query =
  q_table :: string
  q_select :: string
  q_eq :: "(string \<times> string) list"
  q_limit :: "nat option"

record APIResponse =
  data :: pyval

type_synonym Client = "Query \<Rightarrow> exc + APIResponse"

type_synonym create_client = "string \<Rightarrow> string \<Rightarrow> exc + Client"

type_synonym environ = "string \<rightharpoonup> string"

section \<open>AuthMiddleware\<close>

record AuthMiddleware =
  supabase_url :: string
  service_role_key :: string
  jwt_secret :: string
  supabase :: Client

text \<open>
  \<^verbatim>\<open>os.getenv\<close> gives \<^verbatim>\<open>None\<close> for an unset variable; \<^verbatim>\<open>all([...])\<close> tests the truth
  value of each entry, and both \<^verbatim>\<open>None\<close> and the empty string are falsy.
\<close>

definition getenv :: "environ \<Rightarrow> string \<Rightarrow> pyval" where
  "getenv env name = (case env name of None \<Rightarrow> PNone | Some v \<Rightarrow> PStr v)"

definition missing_variables :: exc where
  "missing_variables =
     ValueError (''Missing required environment variables: '' @
                 ''SUPABASE_URL, SUPABASE_SERVICE_ROLE_KEY, SUPABASE_JWT_SECRET'')"

text \<open>
  \<^verbatim>\<open>__init__\<close>: the three variables are read, the guard raises when one of them is
  falsy, then the client is created. An exception of \<open>create_client\<close> leaves the
  constructor; in either failure no object is returned. The last branch of the
  \<open>case\<close> is never taken: a truthy result of \<open>getenv\<close> is a string.
\<close>

definition AuthMiddleware_init :: "create_client \<Rightarrow> environ \<Rightarrow> exc + AuthMiddleware" where
  "AuthMiddleware_init create_client env =
     (let url = getenv env ''SUPABASE_URL'';
          key = getenv env ''SUPABASE_SERVICE_ROLE_KEY'';
          secret = getenv env ''SUPABASE_JWT_SECRET''
      in if \<not> list_all truthy [url, key, secret] then Inl missing_variables
         else (case (url, key, secret) of
                 (PStr u, PStr k, PStr s) \<Rightarrow>
                   (case create_client u k of
                      Inl e \<Rightarrow> Inl e
                    | Inr client \<Rightarrow>
                        Inr \<lparr>supabase_url = u, service_role_key = k, jwt_secret = s,
                             supabase = client\<rparr>)
               | _ \<Rightarrow> Inl missing_variables))"

text \<open>
  \<^verbatim>\<open>_is_valid_uuid\<close>: the constructor is tried; \<^verbatim>\<open>ValueError\<close> and \<^verbatim>\<open>TypeError\<close> are
  caught, any other exception propagates.
\<close>

definition is_valid_uuid :: "pyval \<Rightarrow> exc + bool" where
  "is_valid_uuid uuid_string =
     (case UUID uuid_string of
        Inr u \<Rightarrow> Inr True
      | Inl (ValueError m) \<Rightarrow> Inr False
      | Inl (TypeError m) \<Rightarrow> Inr False
      | Inl e \<Rightarrow> Inl e)"

text \<open>Line 72: \<^verbatim>\<open>payload.get("sub") or payload.get("account_id")\<close>.\<close>

definition select_account_id :: "claims \<Rightarrow> pyval" where
  "select_account_id payload = py_or (dict_get payload ''sub'') (dict_get payload ''account_id'')"

text \<open>The body of the \<^verbatim>\<open>try\<close> block of \<^verbatim>\<open>get_current_account_id\<close>.\<close>

definition get_current_account_id_try ::
    "jwt_decode \<Rightarrow> AuthMiddleware \<Rightarrow> string \<Rightarrow> exc + pyval" where
  "get_current_account_id_try jwt_decode self token =
     (case jwt_decode token (jwt_secret self) [''HS256''] ''authenticated'' of
        Inl e \<Rightarrow> Inl e
      | Inr payload \<Rightarrow>
          (let account_id = select_account_id payload
           in if \<not> truthy account_id
              then Inl (HTTPException 401 ''Invalid token: missing account_id'')
              else (case is_valid_uuid account_id of
                      Inl e \<Rightarrow> Inl e
                    | Inr valid \<Rightarrow>
                        if \<not> valid
                        then Inl (HTTPException 401 ''Invalid token: malformed account_id'')
                        else Inr account_id)))"

text \<open>
  The three \<^verbatim>\<open>except\<close> clauses, in the order of the source. The last one,
  \<^verbatim>\<open>except Exception\<close>, takes every exception the first two did not take, an
  \<open>HTTPException\<close> raised inside the \<^verbatim>\<open>try\<close> block included.
\<close>

fun get_current_account_id_except :: "(nat \<Rightarrow> string \<Rightarrow> string) \<Rightarrow> exc \<Rightarrow> exc" where
  "get_current_account_id_except http_str (ExpiredSignatureError m) =
     HTTPException 401 ''Token has expired''"
| "get_current_account_id_except http_str (InvalidTokenError m) =
     HTTPException 401 (''Invalid token: '' @ m)"
| "get_current_account_id_except http_str e =
     HTTPException 500 (''Authentication error: '' @ exc_str http_str e)"

definition get_current_account_id ::
    "jwt_decode \<Rightarrow> (nat \<Rightarrow> string \<Rightarrow> string) \<Rightarrow> AuthMiddleware \<Rightarrow> string \<Rightarrow> exc + pyval" where
  "get_current_account_id jwt_decode http_str self token =
     (case get_current_account_id_try jwt_decode self token of
        Inr account_id \<Rightarrow> Inr account_id
      | Inl e \<Rightarrow> Inl (get_current_account_id_except http_str e))"

definition get_service_supabase :: "AuthMiddleware \<Rightarrow> Client" where
  "get_service_supabase self = supabase self"

text \<open>\<^verbatim>\<open>len(x)\<close>: defined on strings, lists and dicts, a \<^verbatim>\<open>TypeError\<close> otherwise.\<close>

fun py_len :: "pyval \<Rightarrow> exc + nat" where
  "py_len (PStr s) = Inr (length s)"
| "py_len (PList xs) = Inr (length xs)"
| "py_len (PDict kvs) = Inr (length kvs)"
| "py_len v =
     Inl (TypeError (''object of type '' @ [CHR 0x27] @ type_name v @ [CHR 0x27] @ '' has no len()''))"

text \<open>
  The query that \<^verbatim>\<open>verify_account_exists\<close> builds:
  \<^verbatim>\<open>table("users").select("account_id").eq("account_id", account_id).limit(1)\<close>.
\<close>

definition users_query :: "string \<Rightarrow> Query" where
  "users_query account_id =
     \<lparr>q_table = ''users'', q_select = ''account_id'',
      q_eq = [(''account_id'', account_id)], q_limit = Some 1\<rparr>"

definition verify_account_exists_try :: "AuthMiddleware \<Rightarrow> string \<Rightarrow> exc + bool" where
  "verify_account_exists_try self account_id =
     (case supabase self (users_query account_id) of
        Inl e \<Rightarrow> Inl e
      | Inr result \<Rightarrow>
          (case py_len (data result) of
             Inl e \<Rightarrow> Inl e
           | Inr n \<Rightarrow> Inr (0 < n)))"

definition verify_account_exists :: "AuthMiddleware \<Rightarrow> string \<Rightarrow> exc + bool" where
  "verify_account_exists self account_id =
     (case verify_account_exists_try self account_id of
        Inr found \<Rightarrow> Inr found
      | Inl e \<Rightarrow> Inr False)"

section \<open>Stand-ins for the external libraries\<close>

text \<open>
  Concrete instances of the parameters, used where a statement is evaluated on an
  input. \<open>starlette_str\<close> is \<^verbatim>\<open>HTTPException.__str__\<close> of current Starlette,
  \<^verbatim>\<open>f"{self.status_code}: {self.detail}"\<close>. \<open>fake_jwt_decode\<close> verifies a token only
  under the key it is listed with and reports a signature mismatch otherwise.
  \<open>fake_client\<close> is an in-memory table with an optional injected fault.
  \<open>fake_create_client\<close> rejects a URL without an http(s) scheme, as the Supabase
  client does.
\<close>

function decimal :: "nat \<Rightarrow> string" where
  "decimal n = (if n < 10 then [char_of (48 + n)] else decimal (n div 10) @ [char_of (48 + n mod 10)])"
  by pat_completeness auto
termination
  by (relation "measure id") auto

definition starlette_str :: "nat \<Rightarrow> string \<Rightarrow> string" where
  "starlette_str status detail = decimal status @ '': '' @ detail"

definition fake_jwt_decode :: "((string \<times> string) \<times> (exc + claims)) list \<Rightarrow> jwt_decode" where
  "fake_jwt_decode known token key algorithms audience =
     (case map_of known (token, key) of
        Some outcome \<Rightarrow> outcome
      | None \<Rightarrow> Inl (InvalidTokenError ''Signature verification failed''))"

definition fake_client :: "exc option \<Rightarrow> (string \<times> string) list list \<Rightarrow> Client" where
  "fake_client fault rows q =
     (case fault of
        Some e \<Rightarrow> Inl e
      | None \<Rightarrow>
          (let matching = filter (\<lambda>row. list_all (\<lambda>(col, v). map_of row col = Some v) (q_eq q)) rows;
               limited = (case q_limit q of None \<Rightarrow> matching | Some n \<Rightarrow> take n matching)
           in Inr \<lparr>data = PList (map (\<lambda>row. PDict (map (\<lambda>(col, v). (col, PStr v))
                                   (filter (\<lambda>(col, v). col = q_select q) row))) limited)\<rparr>))"

definition fake_create_client :: "Client \<Rightarrow> create_client" where
  "fake_create_client client url key =
     (if take 7 url = ''http://'' \<and> 7 < length url \<or> take 8 url = ''https://'' \<and> 8 < length url
      then Inr client
      else Inl (OtherException ''Invalid URL''))"

definition example_middleware :: AuthMiddleware where
  "example_middleware = \<lparr>supabase_url = ''https://db.example'', service_role_key = ''k'', jwt_secret = ''s3cret'',
         supabase = fake_client None [[(''account_id'', ''11111111-1111-1111-1111-111111111111'')]]\<rparr>"


text \<open>\<^verbatim>\<open>isinstance(v, str)\<close>.\<close>

fun isinstance_str :: "pyval \<Rightarrow> bool" where
  "isinstance_str (PStr s) = True"
| "isinstance_str v = False"

section \<open>Facts about the UUID constructor and the handlers\<close>

lemma UUID_accepts_only_strings: "UUID a = Inr n \<Longrightarrow> \<exists>s. a = PStr s \<and> s \<noteq> []"
  by (cases a) (auto simp: str_strip_def)

lemma UUID_accepted_truthy: "UUID a = Inr n \<Longrightarrow> truthy a"
  using UUID_accepts_only_strings by fastforce

lemma UUID_not_str:
  "\<not> isinstance_str a \<Longrightarrow> truthy a \<Longrightarrow>
   UUID a = Inl (AttributeError ([CHR 0x27] @ type_name a @ [CHR 0x27] @
              '' object has no attribute '' @ [CHR 0x27] @ ''replace'' @ [CHR 0x27]))"
  by (cases a) simp_all

lemma int_16_error: "int_16 s = Inl e \<Longrightarrow> \<exists>m. e = ValueError m"
  by (auto simp: int_16_def Let_def split: prod.splits list.splits if_splits option.splits)

lemma UUID_str_error: "UUID (PStr s) = Inl e \<Longrightarrow> \<exists>m. e = ValueError m"
  by (auto simp: Let_def split: if_splits sum.splits dest: int_16_error)

lemma verified_missing:
  assumes "jwt_decode token (jwt_secret self) [''HS256''] ''authenticated'' = Inr payload"
    and "\<not> truthy (select_account_id payload)"
  shows "get_current_account_id jwt_decode http_str self token =
         Inl (HTTPException 500 (''Authentication error: '' @
              http_str 401 ''Invalid token: missing account_id''))"
  using assms by (simp add: get_current_account_id_def get_current_account_id_try_def)

lemma verified_accepted:
  assumes "jwt_decode token (jwt_secret self) [''HS256''] ''authenticated'' = Inr payload"
    and "UUID (select_account_id payload) = Inr n"
  shows "get_current_account_id jwt_decode http_str self token = Inr (select_account_id payload)"
  using assms UUID_accepted_truthy [OF assms(2)]
  by (simp add: get_current_account_id_def get_current_account_id_try_def is_valid_uuid_def)

lemma verified_malformed:
  assumes "jwt_decode token (jwt_secret self) [''HS256''] ''authenticated'' = Inr payload"
    and "truthy (select_account_id payload)"
    and "UUID (select_account_id payload) = Inl (ValueError m)"
  shows "get_current_account_id jwt_decode http_str self token =
         Inl (HTTPException 500 (''Authentication error: '' @
              http_str 401 ''Invalid token: malformed account_id''))"
  using assms
  by (simp add: get_current_account_id_def get_current_account_id_try_def is_valid_uuid_def)

lemma verified_attribute_error:
  assumes "jwt_decode token (jwt_secret self) [''HS256''] ''authenticated'' = Inr payload"
    and "truthy (select_account_id payload)"
    and "UUID (select_account_id payload) = Inl (AttributeError m)"
  shows "get_current_account_id jwt_decode http_str self token =
         Inl (HTTPException 500 (''Authentication error: '' @ m))"
  using assms
  by (simp add: get_current_account_id_def get_current_account_id_try_def is_valid_uuid_def)

lemma returned_is_selected:
  assumes "get_current_account_id jwt_decode http_str self token = Inr r"
  shows "\<exists>payload. jwt_decode token (jwt_secret self) [''HS256''] ''authenticated'' = Inr payload
           \<and> r = select_account_id payload \<and> is_valid_uuid r = Inr True"
  using assms
  by (auto simp: get_current_account_id_def get_current_account_id_try_def Let_def
           split: sum.splits if_splits)

lemma is_valid_uuid_True: "is_valid_uuid a = Inr True \<Longrightarrow> \<exists>n. UUID a = Inr n"
  by (auto simp: is_valid_uuid_def split: sum.splits exc.splits)

lemma UUID_ones:
  "UUID (PStr ''11111111-1111-1111-1111-111111111111'') = Inr 0x11111111111111111111111111111111"
  by code_simp

lemma UUID_twos:
  "UUID (PStr ''22222222-2222-2222-2222-222222222222'') = Inr 0x22222222222222222222222222222222"
  by code_simp

lemma UUID_not_a_uuid:
  "UUID (PStr ''not-a-uuid'') = Inl (ValueError ''badly formed hexadecimal UUID string'')"
  by code_simp

lemma starlette_str_401: "starlette_str 401 detail = ''401: '' @ detail"
proof -
  have "decimal 401 = ''401''" by code_simp
  then show ?thesis by (simp add: starlette_str_def)
qed

section \<open>The claims\<close>

text \<open>
  Claim C5. A token that \<open>jwt.decode\<close> rejects as expired (it raises
  \<open>ExpiredSignatureError\<close>, which PyJWT does for a correctly signed token whose
  \<open>exp\<close> lies in the past) makes \<open>get_current_account_id\<close> fail with status 401 and
  detail "Token has expired", whatever the other claims are.
\<close>

theorem C5_expired:
  assumes "jwt_decode token (jwt_secret self) [''HS256''] ''authenticated'' =
           Inl (ExpiredSignatureError m)"
  shows "get_current_account_id jwt_decode http_str self token =
         Inl (HTTPException 401 ''Token has expired'')"
  using assms by (simp add: get_current_account_id_def get_current_account_id_try_def)

text \<open>The statement of C5 at a token that the decoder reports as expired.\<close>

theorem C5_expired_witness:
  "get_current_account_id
     (fake_jwt_decode [((''t'', ''s3cret''), Inl (ExpiredSignatureError ''Signature has expired''))])
     starlette_str example_middleware ''t''
   = Inl (HTTPException 401 ''Token has expired'')"
proof -
  have "fake_jwt_decode [((''t'', ''s3cret''), Inl (ExpiredSignatureError ''Signature has expired''))]
          ''t'' (jwt_secret example_middleware) [''HS256''] ''authenticated''
        = Inl (ExpiredSignatureError ''Signature has expired'')"
    by (simp add: fake_jwt_decode_def example_middleware_def)
  from C5_expired [where jwt_decode = "fake_jwt_decode [((''t'', ''s3cret''), Inl (ExpiredSignatureError ''Signature has expired''))]"
        and token = "''t''" and self = example_middleware, OF this]
  show ?thesis .
qed

text \<open>
  Claim C6. A token that \<open>jwt.decode\<close> rejects with an \<open>InvalidTokenError\<close> other than
  expiry (signature mismatch, bad encoding, unsupported algorithm, wrong audience)
  makes \<open>get_current_account_id\<close> fail with status 401 and detail
  "Invalid token: " followed by the decoder's message; the claims are never looked at.
\<close>

theorem C6_invalid_token:
  assumes "jwt_decode token (jwt_secret self) [''HS256''] ''authenticated'' =
           Inl (InvalidTokenError m)"
  shows "get_current_account_id jwt_decode http_str self token =
         Inl (HTTPException 401 (''Invalid token: '' @ m))"
  using assms by (simp add: get_current_account_id_def get_current_account_id_try_def)

text \<open>The statement of C6 at a token signed with a secret that is not the configured one.\<close>

theorem C6_invalid_token_witness:
  "get_current_account_id
     (fake_jwt_decode
        [((''t'', ''another-secret''),
          Inr [''sub'' \<mapsto> PStr ''11111111-1111-1111-1111-111111111111'',
               ''aud'' \<mapsto> PStr ''authenticated''])])
     starlette_str example_middleware ''t''
   = Inl (HTTPException 401 ''Invalid token: Signature verification failed'')"
proof -
  have "fake_jwt_decode
          [((''t'', ''another-secret''),
            Inr [''sub'' \<mapsto> PStr ''11111111-1111-1111-1111-111111111111'',
                 ''aud'' \<mapsto> PStr ''authenticated''])]
          ''t'' (jwt_secret example_middleware) [''HS256''] ''authenticated''
        = Inl (InvalidTokenError ''Signature verification failed'')"
    by (simp add: fake_jwt_decode_def example_middleware_def)
  from C6_invalid_token [where jwt_decode = "fake_jwt_decode
          [((''t'', ''another-secret''),
            Inr [''sub'' \<mapsto> PStr ''11111111-1111-1111-1111-111111111111'',
                 ''aud'' \<mapsto> PStr ''authenticated''])]"
        and token = "''t''" and self = example_middleware, OF this]
  show ?thesis by simp
qed

text \<open>
  Claim C4. When \<open>jwt.decode\<close>, called with the configured secret, the algorithm list
  \<open>[HS256]\<close> and the audience "authenticated", accepts the token, and the \<open>sub\<close>
  claim is a string that the UUID constructor accepts, \<open>get_current_account_id\<close>
  returns exactly that string.
\<close>

theorem C4_valid_sub_returned:
  assumes "jwt_decode token (jwt_secret self) [''HS256''] ''authenticated'' = Inr payload"
    and "payload ''sub'' = Some (PStr u)"
    and "UUID (PStr u) = Inr n"
  shows "get_current_account_id jwt_decode http_str self token = Inr (PStr u)"
proof -
  from assms(3) have "u \<noteq> []"
    using UUID_accepts_only_strings by blast
  with assms(2) have sel: "select_account_id payload = PStr u"
    by (simp add: select_account_id_def dict_get_def py_or_def)
  with assms(3) have "UUID (select_account_id payload) = Inr n" by simp
  from verified_accepted [where jwt_decode = jwt_decode and token = token and self = self,
        OF assms(1) this] sel
  show ?thesis by simp
qed

text \<open>The statement of C4 at scenario 8 of the specification.\<close>

theorem C4_valid_sub_returned_witness:
  "get_current_account_id
     (fake_jwt_decode
        [((''t'', ''s3cret''),
          Inr [''sub'' \<mapsto> PStr ''11111111-1111-1111-1111-111111111111'',
               ''aud'' \<mapsto> PStr ''authenticated'', ''exp'' \<mapsto> PInt 4102444800])])
     starlette_str example_middleware ''t''
   = Inr (PStr ''11111111-1111-1111-1111-111111111111'')"
proof -
  let ?payload = "[''sub'' \<mapsto> PStr ''11111111-1111-1111-1111-111111111111'',
                   ''aud'' \<mapsto> PStr ''authenticated'', ''exp'' \<mapsto> PInt 4102444800]"
  have d: "fake_jwt_decode [((''t'', ''s3cret''), Inr ?payload)]
          ''t'' (jwt_secret example_middleware) [''HS256''] ''authenticated'' = Inr ?payload"
    by (simp add: fake_jwt_decode_def example_middleware_def)
  have s: "?payload ''sub'' = Some (PStr ''11111111-1111-1111-1111-111111111111'')"
    by simp
  from C4_valid_sub_returned [where jwt_decode = "fake_jwt_decode [((''t'', ''s3cret''), Inr ?payload)]"
        and token = "''t''" and self = example_middleware, OF d s UUID_ones]
  show ?thesis .
qed

text \<open>
  Claim C1, evaluated at a token that verifies and carries an empty \<open>sub\<close> and no
  \<open>account_id\<close>. The code raises \<open>HTTPException(401, "Invalid token: missing
  account_id")\<close> inside the \<^verbatim>\<open>try\<close> block; the clause \<^verbatim>\<open>except Exception\<close> catches it and
  raises status 500 in its place. With current Starlette the detail is
  "Authentication error: 401: Invalid token: missing account_id".
\<close>

theorem C1_missing_identifier_surfaces_as_500:
  "get_current_account_id
     (fake_jwt_decode
        [((''t'', ''s3cret''),
          Inr [''sub'' \<mapsto> PStr '''', ''aud'' \<mapsto> PStr ''authenticated'',
               ''exp'' \<mapsto> PInt 4102444800])])
     starlette_str example_middleware ''t''
   = Inl (HTTPException 500 ''Authentication error: 401: Invalid token: missing account_id'')"
proof -
  let ?payload = "[''sub'' \<mapsto> PStr '''', ''aud'' \<mapsto> PStr ''authenticated'',
                   ''exp'' \<mapsto> PInt 4102444800]"
  have d: "fake_jwt_decode [((''t'', ''s3cret''), Inr ?payload)]
          ''t'' (jwt_secret example_middleware) [''HS256''] ''authenticated'' = Inr ?payload"
    by (simp add: fake_jwt_decode_def example_middleware_def)
  have f: "\<not> truthy (select_account_id ?payload)"
    by (simp add: select_account_id_def dict_get_def py_or_def)
  from verified_missing [where jwt_decode = "fake_jwt_decode [((''t'', ''s3cret''), Inr ?payload)]"
        and token = "''t''" and self = example_middleware and http_str = starlette_str, OF d f]
  show ?thesis by (simp add: starlette_str_401)
qed

text \<open>
  Claim C2, evaluated at a token that verifies and carries the \<open>sub\<close> value
  "not-a-uuid". The \<open>HTTPException(401, "Invalid token: malformed account_id")\<close>
  raised inside the \<^verbatim>\<open>try\<close> block is caught by \<^verbatim>\<open>except Exception\<close> and replaced by
  status 500.
\<close>

theorem C2_malformed_identifier_surfaces_as_500:
  "get_current_account_id
     (fake_jwt_decode
        [((''t'', ''s3cret''),
          Inr [''sub'' \<mapsto> PStr ''not-a-uuid'', ''aud'' \<mapsto> PStr ''authenticated'',
               ''exp'' \<mapsto> PInt 4102444800])])
     starlette_str example_middleware ''t''
   = Inl (HTTPException 500 ''Authentication error: 401: Invalid token: malformed account_id'')"
proof -
  let ?payload = "[''sub'' \<mapsto> PStr ''not-a-uuid'', ''aud'' \<mapsto> PStr ''authenticated'',
                   ''exp'' \<mapsto> PInt 4102444800]"
  have d: "fake_jwt_decode [((''t'', ''s3cret''), Inr ?payload)]
          ''t'' (jwt_secret example_middleware) [''HS256''] ''authenticated'' = Inr ?payload"
    by (simp add: fake_jwt_decode_def example_middleware_def)
  have sel: "select_account_id ?payload = PStr ''not-a-uuid''"
    by (simp add: select_account_id_def dict_get_def py_or_def)
  have t: "truthy (select_account_id ?payload)"
    by (simp add: sel)
  have u: "UUID (select_account_id ?payload) =
           Inl (ValueError ''badly formed hexadecimal UUID string'')"
    by (simp only: sel UUID_not_a_uuid)
  from verified_malformed [where jwt_decode = "fake_jwt_decode [((''t'', ''s3cret''), Inr ?payload)]"
        and token = "''t''" and self = example_middleware and http_str = starlette_str, OF d t u]
  show ?thesis by (simp add: starlette_str_401)
qed

text \<open>
  Claim C9. Whatever \<open>get_current_account_id\<close> returns is the value selected from
  the claims of a token that verified, is a string, and is accepted by the UUID
  constructor; nothing that the constructor rejects is returned.
\<close>

theorem C9_returned_identifier_is_uuid:
  assumes "get_current_account_id jwt_decode http_str self token = Inr r"
  shows "\<exists>payload s n.
           jwt_decode token (jwt_secret self) [''HS256''] ''authenticated'' = Inr payload \<and>
           r = select_account_id payload \<and> r = PStr s \<and> UUID (PStr s) = Inr n"
proof -
  from returned_is_selected [OF assms] obtain payload where
    p: "jwt_decode token (jwt_secret self) [''HS256''] ''authenticated'' = Inr payload"
    and r: "r = select_account_id payload" and v: "is_valid_uuid r = Inr True"
    by blast
  from is_valid_uuid_True [OF v] obtain n where n: "UUID r = Inr n" by blast
  from UUID_accepts_only_strings [OF n] obtain s where s: "r = PStr s" by blast
  from n s have "UUID (PStr s) = Inr n" by (simp only:)
  with p r s show ?thesis by blast
qed

text \<open>The statement of C9 at a token whose \<open>sub\<close> is a canonical UUID.\<close>

theorem C9_returned_identifier_is_uuid_witness:
  "get_current_account_id
     (fake_jwt_decode
        [((''t'', ''s3cret''),
          Inr [''sub'' \<mapsto> PStr ''11111111-1111-1111-1111-111111111111'',
               ''aud'' \<mapsto> PStr ''authenticated''])])
     starlette_str example_middleware ''t''
   = Inr (PStr ''11111111-1111-1111-1111-111111111111'') \<and>
   (\<exists>n. UUID (PStr ''11111111-1111-1111-1111-111111111111'') = Inr n)"
proof -
  let ?payload = "[''sub'' \<mapsto> PStr ''11111111-1111-1111-1111-111111111111'',
                   ''aud'' \<mapsto> PStr ''authenticated'']"
  let ?dec = "fake_jwt_decode [((''t'', ''s3cret''), Inr ?payload)]"
  have d: "?dec ''t'' (jwt_secret example_middleware) [''HS256''] ''authenticated'' = Inr ?payload"
    by (simp add: fake_jwt_decode_def example_middleware_def)
  have sel: "select_account_id ?payload = PStr ''11111111-1111-1111-1111-111111111111''"
    by (simp add: select_account_id_def dict_get_def py_or_def)
  have u: "UUID (select_account_id ?payload) = Inr 0x11111111111111111111111111111111"
    by (simp only: sel UUID_ones)
  from verified_accepted [where jwt_decode = ?dec and token = "''t''"
        and self = example_middleware and http_str = starlette_str, OF d u]
  have r: "get_current_account_id ?dec starlette_str example_middleware ''t'' =
           Inr (PStr ''11111111-1111-1111-1111-111111111111'')"
    by (simp only: sel)
  from C9_returned_identifier_is_uuid [OF r] obtain s n where
    "PStr ''11111111-1111-1111-1111-111111111111'' = PStr s" and "UUID (PStr s) = Inr n"
    by blast
  then have "\<exists>n. UUID (PStr ''11111111-1111-1111-1111-111111111111'') = Inr n"
    by (auto simp del: UUID.simps)
  with r show ?thesis by blast
qed

text \<open>
  Claim C10. When the token verifies and the selected identifier is truthy but
  not a string, the UUID constructor raises \<open>AttributeError\<close>, which
  \<open>_is_valid_uuid\<close> does not catch; \<open>get_current_account_id\<close> fails with status 500
  and a detail that starts with "Authentication error: ".
\<close>

theorem C10_non_string_identifier_is_500:
  assumes "jwt_decode token (jwt_secret self) [''HS256''] ''authenticated'' = Inr payload"
    and "truthy (select_account_id payload)"
    and "\<not> isinstance_str (select_account_id payload)"
  shows "get_current_account_id jwt_decode http_str self token =
         Inl (HTTPException 500
               (''Authentication error: '' @ [CHR 0x27] @ type_name (select_account_id payload) @
                [CHR 0x27] @ '' object has no attribute '' @ [CHR 0x27] @ ''replace'' @ [CHR 0x27]))"
  using verified_attribute_error [where jwt_decode = jwt_decode and token = token and self = self,
          OF assms(1) assms(2) UUID_not_str [OF assms(3) assms(2)]]
  by simp

text \<open>The statement of C10 at a token whose \<open>sub\<close> is the integer 12345.\<close>

theorem C10_non_string_identifier_is_500_witness:
  "get_current_account_id
     (fake_jwt_decode
        [((''t'', ''s3cret''),
          Inr [''sub'' \<mapsto> PInt 12345, ''aud'' \<mapsto> PStr ''authenticated''])])
     starlette_str example_middleware ''t''
   = Inl (HTTPException 500
           (''Authentication error: '' @ [CHR 0x27] @ ''int'' @ [CHR 0x27] @
            '' object has no attribute '' @ [CHR 0x27] @ ''replace'' @ [CHR 0x27]))"
proof -
  let ?payload = "[''sub'' \<mapsto> PInt 12345, ''aud'' \<mapsto> PStr ''authenticated'']"
  let ?dec = "fake_jwt_decode [((''t'', ''s3cret''), Inr ?payload)]"
  have d: "?dec ''t'' (jwt_secret example_middleware) [''HS256''] ''authenticated'' = Inr ?payload"
    by (simp add: fake_jwt_decode_def example_middleware_def)
  have sel: "select_account_id ?payload = PInt 12345"
    by (simp add: select_account_id_def dict_get_def py_or_def)
  have t: "truthy (select_account_id ?payload)" by (simp add: sel)
  have i: "\<not> isinstance_str (select_account_id ?payload)" by (simp add: sel)
  from C10_non_string_identifier_is_500 [where jwt_decode = ?dec and token = "''t''"
        and self = example_middleware and http_str = starlette_str, OF d t i]
  show ?thesis by (simp add: sel)
qed

end
